theory Spec2Isabelle
  imports Complex_Main "HOL-Library.Log_Nat" "HOL-Library.Char_ord" "HOL-Library.List_Lexorder"
begin

section \<open>Isolation forest: tree growth, path length and anomaly score\<close>

text \<open>
  A shallow embedding of \<^verbatim>\<open>frds/algorithms/isolation_forest/src/IsolationForest.cpp\<close>.
  Every function below carries the name of the C++ function it is translated from.
\<close>

subsection \<open>Values of type \<^verbatim>\<open>double\<close>\<close>

text \<open>
  A \<^verbatim>\<open>double\<close> is a not-a-number, one of the two infinities, or a finite number.
  The special values follow IEEE 754, so that the comparisons with a not-a-number and
  the divisions by zero and by infinity of the source are branches of the model.  The
  conversion of a count to \<^verbatim>\<open>double\<close> rounds to 53 significant bits, to nearest and to
  even on a tie.  The results of the arithmetic operations, of \<^verbatim>\<open>log\<close> and of \<^verbatim>\<open>pow\<close> on
  finite numbers are not rounded: they are the exact real results, and the properties
  below state special values, signs and differences far above a rounding error, never
  the last bits of a computed result.  Overflow to infinity and the
  sign of zero are left out (a zero divisor is taken as \<^verbatim>\<open>+0.0\<close>, which is what the
  conversion of an unsigned count gives).
\<close>

datatype double = NaN | MInf | Fin real | PInf

fun isnan :: "double \<Rightarrow> bool" where
  "isnan NaN = True"
| "isnan _ = False"

text \<open>The operator \<^verbatim>\<open><=\<close> of C++: false as soon as one side is a not-a-number.\<close>

fun dle :: "double \<Rightarrow> double \<Rightarrow> bool" where
  "dle NaN _ = False"
| "dle _ NaN = False"
| "dle MInf _ = True"
| "dle _ PInf = True"
| "dle (Fin x) (Fin y) = (x \<le> y)"
| "dle (Fin x) MInf = False"
| "dle PInf _ = False"

fun dneg :: "double \<Rightarrow> double" where
  "dneg NaN = NaN"
| "dneg MInf = PInf"
| "dneg PInf = MInf"
| "dneg (Fin x) = Fin (- x)"

fun dadd :: "double \<Rightarrow> double \<Rightarrow> double" where
  "dadd NaN _ = NaN"
| "dadd _ NaN = NaN"
| "dadd (Fin x) (Fin y) = Fin (x + y)"
| "dadd PInf MInf = NaN"
| "dadd MInf PInf = NaN"
| "dadd PInf _ = PInf"
| "dadd _ PInf = PInf"
| "dadd MInf _ = MInf"
| "dadd _ MInf = MInf"

definition dsub :: "double \<Rightarrow> double \<Rightarrow> double" where
  "dsub a b = dadd a (dneg b)"

text \<open>The infinity of the sign of a finite non-zero number.\<close>

definition inf_of_sign :: "real \<Rightarrow> double" where
  "inf_of_sign x = (if 0 < x then PInf else MInf)"

fun dmul :: "double \<Rightarrow> double \<Rightarrow> double" where
  "dmul NaN _ = NaN"
| "dmul _ NaN = NaN"
| "dmul (Fin x) (Fin y) = Fin (x * y)"
| "dmul (Fin x) PInf = (if x = 0 then NaN else inf_of_sign x)"
| "dmul (Fin x) MInf = (if x = 0 then NaN else inf_of_sign (- x))"
| "dmul PInf (Fin y) = (if y = 0 then NaN else inf_of_sign y)"
| "dmul MInf (Fin y) = (if y = 0 then NaN else inf_of_sign (- y))"
| "dmul PInf PInf = PInf"
| "dmul MInf MInf = PInf"
| "dmul PInf MInf = MInf"
| "dmul MInf PInf = MInf"

fun ddiv :: "double \<Rightarrow> double \<Rightarrow> double" where
  "ddiv NaN _ = NaN"
| "ddiv _ NaN = NaN"
| "ddiv (Fin x) (Fin y) =
     (if y = 0 then (if x = 0 then NaN else inf_of_sign x) else Fin (x / y))"
| "ddiv (Fin x) PInf = Fin 0"
| "ddiv (Fin x) MInf = Fin 0"
| "ddiv PInf (Fin y) = (if 0 \<le> y then PInf else MInf)"
| "ddiv MInf (Fin y) = (if 0 \<le> y then MInf else PInf)"
| "ddiv PInf PInf = NaN"
| "ddiv PInf MInf = NaN"
| "ddiv MInf PInf = NaN"
| "ddiv MInf MInf = NaN"

text \<open>\<^verbatim>\<open>log\<close> of \<^verbatim>\<open><cmath>\<close>: minus infinity at zero, not-a-number below zero.\<close>

fun dlog :: "double \<Rightarrow> double" where
  "dlog NaN = NaN"
| "dlog MInf = NaN"
| "dlog PInf = PInf"
| "dlog (Fin x) = (if x < 0 then NaN else if x = 0 then MInf else Fin (ln x))"

text \<open>\<^verbatim>\<open>pow(2, x)\<close> of \<^verbatim>\<open><cmath>\<close>.\<close>

fun pow2 :: "double \<Rightarrow> double" where
  "pow2 NaN = NaN"
| "pow2 MInf = Fin 0"
| "pow2 PInf = PInf"
| "pow2 (Fin x) = Fin (2 powr x)"

text \<open>
  The conversion \<^verbatim>\<open>(double)n\<close> of an unsigned count.  A count below \<open>2\<^sup>5\<^sup>3\<close> is a
  double.  A larger one has \<open>excess_bits n\<close> bits too many: they are cut off, and the
  remaining 53 bits are rounded up when the bits cut off are more than half a unit, or
  exactly half a unit with an odd last bit.
\<close>

fun excess_bits :: "nat \<Rightarrow> nat" where
  "excess_bits n = (if n < 2 ^ 53 then 0 else Suc (excess_bits (n div 2)))"

definition round_to_double :: "nat \<Rightarrow> nat" where
  "round_to_double n =
     (let k = excess_bits n; q = n div 2 ^ k; r = n mod 2 ^ k in
      if 2 * r < 2 ^ k then q * 2 ^ k
      else if 2 * r > 2 ^ k then (q + 1) * 2 ^ k
      else (if even q then q else q + 1) * 2 ^ k)"

definition of_size :: "nat \<Rightarrow> double" where
  "of_size n = Fin (real (round_to_double n))"

definition EULER_GAMMA :: real where
  "EULER_GAMMA = 0.57721566490153286"

subsection \<open>Strings\<close>

text \<open>
  A C string is the list of its bytes before the terminating zero, so \<^verbatim>\<open>strlen\<close> is the
  length of the list.  \<^verbatim>\<open>strcmp\<close> compares bytes as unsigned values and returns the
  difference at the first position where the strings differ.
\<close>

definition strlen :: "string \<Rightarrow> nat" where
  "strlen s = length s"

fun strcmp :: "string \<Rightarrow> string \<Rightarrow> int" where
  "strcmp [] [] = 0"
| "strcmp [] (y # ys) = - 1"
| "strcmp (x # xs) [] = 1"
| "strcmp (x # xs) (y # ys) =
     (if x = y then strcmp xs ys else int (of_char x) - int (of_char y))"

subsection \<open>The random generator and the library's sampling\<close>

text \<open>
  The state of the generator \<^verbatim>\<open>std::mt19937_64\<close> is the sequence of the raw numbers it
  will still produce; a draw reads the first and leaves the rest.  A
  \<^verbatim>\<open>uniform_int_distribution\<close> with bounds \<open>(a, b)\<close> reduces one raw number into the
  closed range from \<open>a\<close> to \<open>b\<close>.
\<close>

type_synonym mt19937_64 = "nat \<Rightarrow> nat"

fun uniform_int_distribution :: "nat \<times> nat \<Rightarrow> mt19937_64 \<Rightarrow> nat \<times> mt19937_64" where
  "uniform_int_distribution (a, b) g = (a + g 0 mod (b - a + 1), \<lambda>i. g (Suc i))"

text \<open>
  \<^verbatim>\<open>std::sample\<close> over forward iterators is selection sampling: it walks the population
  once, keeps an element when a draw below the number of elements still unseen falls
  under the number still wanted, and so keeps the population's order.  It asks for no
  more elements than the population has.
\<close>

fun sample_loop :: "nat list \<Rightarrow> nat \<Rightarrow> mt19937_64 \<Rightarrow> nat list \<times> mt19937_64" where
  "sample_loop [] n g = ([], g)"
| "sample_loop (x # xs) n g =
     (if n = 0 then ([], g)
      else case uniform_int_distribution (0, length xs) g of (r, g') \<Rightarrow>
        if r < n then (case sample_loop xs (n - 1) g' of (ys, g'') \<Rightarrow> (x # ys, g''))
        else sample_loop xs n g')"

definition std_sample :: "nat list \<Rightarrow> nat \<Rightarrow> mt19937_64 \<Rightarrow> nat list \<times> mt19937_64" where
  "std_sample population n g = sample_loop population (min n (length population)) g"

subsection \<open>The data source, the nodes and the forest\<close>

text \<open>
  A two-dimensional array of the data source: its two dimensions and the cell read by
  \<^verbatim>\<open>PyArray_GETPTR2\<close> (attribute first, observation second).  The source does not
  check an index; a read outside the dimensions is outside the array there, and has a
  value here only because \<open>cell\<close> is a total function.  The properties below that
  let \<^verbatim>\<open>growTree\<close> read cells are stated for tables with at least one attribute and for
  observation indices inside the table.
\<close>

record 'a PyArrayObject =
  dim0 :: nat
  dim1 :: nat
  cell :: "nat \<Rightarrow> nat \<Rightarrow> 'a"

definition PyArray_GETPTR2 :: "'a PyArrayObject \<Rightarrow> nat \<Rightarrow> nat \<Rightarrow> 'a" where
  "PyArray_GETPTR2 arr i j = cell arr i j"

text \<open>
  \<open>ExNode n\<close> is the external node \<^verbatim>\<open>Node(-1, NAN, nullptr, true, n)\<close>, which has no
  children.  \<open>InNode attr val chr n l r\<close> is the internal node
  \<^verbatim>\<open>Node(attr, val, chr, false, n)\<close> with its children \<^verbatim>\<open>lnode\<close> and \<^verbatim>\<open>rnode\<close>; the
  string pointer \<^verbatim>\<open>splitChar\<close> is \<open>None\<close> when it is null.
\<close>

datatype Node = ExNode nat | InNode nat double "string option" nat Node Node

datatype IsolationTree = IsolationTree (root: Node)

record IsolationForest =
  treeSize :: nat
  forestSize :: nat
  randomSeed :: nat
  maxTreeHeight :: int
  n_num_attrs :: nat
  n_char_attrs :: nat
  nObs :: nat
  num_data :: "double PyArrayObject"
  char_data :: "string PyArrayObject"
  randomGen :: mt19937_64
  uniformDist :: "nat \<times> nat"
  trees :: "IsolationTree list"

subsection \<open>\<^verbatim>\<open>IsolationForest::growTree\<close>\<close>

text \<open>The test of the numeric loop that pushes an observation to \<^verbatim>\<open>lobs\<close>.\<close>

definition num_goes_left :: "double \<Rightarrow> double \<Rightarrow> bool" where
  "num_goes_left val obsVal =
     (if isnan val then isnan obsVal else (isnan obsVal \<or> dle obsVal val))"

text \<open>The test of the string loop that pushes an observation to \<^verbatim>\<open>lobs\<close>.\<close>

definition char_goes_left :: "string \<Rightarrow> string \<Rightarrow> bool" where
  "char_goes_left val obsVal =
     (if strlen obsVal < strlen val then True
      else if strlen obsVal > strlen val then False
      else strcmp obsVal val \<le> 0)"

text \<open>
  The part of \<^verbatim>\<open>growTree\<close> between the test for an external node and the two recursive
  calls: the draw of the attribute, the draw of the pivot in the sample, the two loops
  that fill \<^verbatim>\<open>lobs\<close> and \<^verbatim>\<open>robs\<close>, and the fields of the new node.
\<close>

definition split_sample ::
  "IsolationForest \<Rightarrow> nat list \<Rightarrow> mt19937_64 \<Rightarrow>
     nat \<times> double \<times> string option \<times> nat list \<times> nat list \<times> mt19937_64" where
  "split_sample f sample g =
     (case uniform_int_distribution (uniformDist f) g of (attr, g1) \<Rightarrow>
      case uniform_int_distribution (0, length sample - 1) g1 of (k, g2) \<Rightarrow>
        if attr < n_num_attrs f then
          (let val = PyArray_GETPTR2 (num_data f) attr (sample ! k) in
           (attr, val, None,
            filter (\<lambda>i. num_goes_left val (PyArray_GETPTR2 (num_data f) attr i)) sample,
            filter (\<lambda>i. \<not> num_goes_left val (PyArray_GETPTR2 (num_data f) attr i)) sample,
            g2))
        else
          (let val = PyArray_GETPTR2 (char_data f) (attr - n_num_attrs f) (sample ! k) in
           (attr, NaN, Some val,
            filter (\<lambda>i. char_goes_left val
                          (PyArray_GETPTR2 (char_data f) (attr - n_num_attrs f) i)) sample,
            filter (\<lambda>i. \<not> char_goes_left val
                          (PyArray_GETPTR2 (char_data f) (attr - n_num_attrs f) i)) sample,
            g2)))"

function growTree ::
  "IsolationForest \<Rightarrow> nat list \<Rightarrow> int \<Rightarrow> mt19937_64 \<Rightarrow> Node \<times> mt19937_64" where
  "growTree f sample height g =
     (if length sample \<le> 1 \<or> height \<ge> maxTreeHeight f then (ExNode (length sample), g)
      else case split_sample f sample g of (attr, val, chr, lobs, robs, g2) \<Rightarrow>
        case growTree f lobs (height + 1) g2 of (l, g3) \<Rightarrow>
        case growTree f robs (height + 1) g3 of (r, g4) \<Rightarrow>
          (InNode attr val chr (length sample) l r, g4))"
  by pat_completeness auto
termination
  by (relation "measure (\<lambda>(f, sample, height, g). nat (maxTreeHeight f - height))") auto

declare growTree.simps [simp del]

subsection \<open>\<^verbatim>\<open>IsolationForest::IsolationForest\<close>\<close>

text \<open>
  The constructor.  The seeding of the generator is the library's and is a parameter.
  So is \<open>ceil_log2\<close>, the integer that \<^verbatim>\<open>ceil(log2((double)treeSize))\<close> is converted to:
  the source computes it in binary64 with the library's \<^verbatim>\<open>log2\<close>, so it need not be the
  exact ceiling of the logarithm for a large tree size, and at a tree size of zero it
  is the conversion of minus infinity to an integer, which C++ leaves undefined.
  The upper bound of \<^verbatim>\<open>uniformDist\<close> is computed in \<^verbatim>\<open>size_t\<close> and wraps around when
  there is no attribute at all.
\<close>

definition IsolationForest_ctor ::
  "(nat \<Rightarrow> int) \<Rightarrow> (nat \<Rightarrow> mt19937_64) \<Rightarrow> double PyArrayObject \<Rightarrow> string PyArrayObject \<Rightarrow>
     nat \<Rightarrow> nat \<Rightarrow> nat \<Rightarrow> IsolationForest" where
  "IsolationForest_ctor ceil_log2 seed_gen numd chard tSize fSize rSeed =
     \<lparr> treeSize = tSize, forestSize = fSize, randomSeed = rSeed,
       maxTreeHeight = ceil_log2 tSize,
       n_num_attrs = dim0 numd, n_char_attrs = dim0 chard, nObs = dim1 numd,
       num_data = numd, char_data = chard, randomGen = seed_gen rSeed,
       uniformDist = (0, (dim0 numd + dim0 chard + 2 ^ 64 - 1) mod 2 ^ 64),
       trees = [] \<rparr>"

subsection \<open>\<^verbatim>\<open>IsolationForest::averagePathLength\<close>\<close>

definition averagePathLength :: "nat \<Rightarrow> double" where
  "averagePathLength nObs' =
     (let n = of_size nObs' in
      dsub (dmul (Fin 2) (dadd (dlog (dsub n (Fin 1))) (Fin EULER_GAMMA)))
           (ddiv (dmul (Fin 2) (dsub n (Fin 1))) n))"

subsection \<open>\<^verbatim>\<open>IsolationForest::growForest\<close> and \<^verbatim>\<open>IsolationForest::grow\<close>\<close>

text \<open>
  The loop of \<^verbatim>\<open>growForest\<close>, by the number of iterations still to run.  The vector
  \<^verbatim>\<open>sample\<close> is declared inside the loop body, so every iteration starts from an empty one.
\<close>

fun growForest_loop :: "nat \<Rightarrow> nat list \<Rightarrow> IsolationForest \<Rightarrow> IsolationForest" where
  "growForest_loop 0 obs f = f"
| "growForest_loop (Suc k) obs f =
     (case std_sample obs (treeSize f) (randomGen f) of (sample, g1) \<Rightarrow>
      case growTree f sample 0 g1 of (node, g2) \<Rightarrow>
        growForest_loop k obs (f\<lparr>randomGen := g2, trees := trees f @ [IsolationTree node]\<rparr>))"

definition growForest :: "IsolationForest \<Rightarrow> IsolationForest" where
  "growForest f = growForest_loop (forestSize f) [0..<nObs f] f"

text \<open>
  The body of the thread that \<^verbatim>\<open>grow\<close> starts, run alone to its end.  The vector
  \<^verbatim>\<open>sample\<close> is declared before the loop and \<^verbatim>\<open>std::sample\<close> appends to it through a
  \<^verbatim>\<open>back_inserter\<close>, so it is carried from one iteration to the next.
\<close>

fun grow_loop :: "nat \<Rightarrow> nat list \<Rightarrow> nat list \<Rightarrow> IsolationForest \<Rightarrow> IsolationForest" where
  "grow_loop 0 obs sample f = f"
| "grow_loop (Suc k) obs sample f =
     (case std_sample obs (treeSize f) (randomGen f) of (drawn, g1) \<Rightarrow>
      case growTree f (sample @ drawn) 0 g1 of (node, g2) \<Rightarrow>
        grow_loop k obs (sample @ drawn)
          (f\<lparr>randomGen := g2, trees := trees f @ [IsolationTree node]\<rparr>))"

definition grow :: "nat \<Rightarrow> IsolationForest \<Rightarrow> IsolationForest" where
  "grow jobs f = grow_loop jobs [0..<nObs f] [] f"

subsection \<open>\<^verbatim>\<open>IsolationForest::pathLength\<close> and \<^verbatim>\<open>IsolationForest::anomalyScore\<close>\<close>

text \<open>
  \<^verbatim>\<open>pathLength\<close> reads \<^verbatim>\<open>strlen(node->splitChar)\<close> at a node whose attribute is a string
  attribute; with a null \<^verbatim>\<open>splitChar\<close> that is a null dereference, the result \<open>None\<close>.
\<close>

fun pathLength :: "IsolationForest \<Rightarrow> nat \<Rightarrow> Node \<Rightarrow> int \<Rightarrow> double option" where
  "pathLength f ob (ExNode n) len =
     (if n \<le> 1 then Some (Fin (real_of_int len))
      else Some (dadd (Fin (real_of_int len)) (averagePathLength n)))"
| "pathLength f ob (InNode splitAttribute splitValue splitChar n lnode rnode) len =
     (if splitAttribute < n_num_attrs f then
        (let val = PyArray_GETPTR2 (num_data f) splitAttribute ob in
         if dle val splitValue then pathLength f ob lnode (len + 1)
         else pathLength f ob rnode (len + 1))
      else
        (case splitChar of
           None \<Rightarrow> None
         | Some splitStr \<Rightarrow>
            (let val = PyArray_GETPTR2 (char_data f) (splitAttribute - n_num_attrs f) ob;
                 val_len = strlen val;
                 splitVal_len = strlen splitStr in
             if val_len < splitVal_len then pathLength f ob lnode (len + 1)
             else if val_len > splitVal_len then pathLength f ob rnode (len + 1)
             else if strcmp val splitStr \<le> 0 then pathLength f ob lnode (len + 1)
             else pathLength f ob rnode (len + 1))))"

text \<open>The loop \<^verbatim>\<open>for (auto &tree : this->trees) avg += pathLength(ob, tree->root)\<close>.\<close>

fun sum_pathLength ::
  "IsolationForest \<Rightarrow> nat \<Rightarrow> IsolationTree list \<Rightarrow> double \<Rightarrow> double option" where
  "sum_pathLength f ob [] avg = Some avg"
| "sum_pathLength f ob (tree # rest) avg =
     (case pathLength f ob (root tree) 0 of
        None \<Rightarrow> None
      | Some p \<Rightarrow> sum_pathLength f ob rest (dadd avg p))"

definition anomalyScore :: "IsolationForest \<Rightarrow> nat \<Rightarrow> double option" where
  "anomalyScore f ob =
     (case sum_pathLength f ob (trees f) (Fin 0) of
        None \<Rightarrow> None
      | Some avg \<Rightarrow>
          (let avg' = ddiv avg (of_size (forestSize f)) in
           Some (pow2 (ddiv (dneg avg') (averagePathLength (treeSize f))))))"

subsection \<open>Notions used to state the properties\<close>

text \<open>
  The closed form that the specification gives for the average path length, as a
  function of a real number.
\<close>

definition averagePathLength_formula :: "real \<Rightarrow> real" where
  "averagePathLength_formula x = 2 * (ln (x - 1) + EULER_GAMMA) - 2 * (x - 1) / x"


text \<open>The number of observations that a node records.\<close>

fun node_size :: "Node \<Rightarrow> nat" where
  "node_size (ExNode n) = n"
| "node_size (InNode attr val chr n l r) = n"


subsection \<open>A small data source\<close>

text \<open>
  Three observations with one numeric and one string attribute; the second observation
  has no numeric reading.  The generator seeded with \<open>s\<close> produces \<open>s\<close> forever, so that
  seed 0 always draws the numeric attribute and the first observation of the sample as
  pivot, and seed 1 the string attribute and the second observation.
\<close>

definition example_num :: "double PyArrayObject" where
  "example_num = \<lparr>dim0 = 1, dim1 = 3,
      cell = (\<lambda>attr ob. if ob = 0 then Fin 1 else if ob = 1 then NaN else Fin 5)\<rparr>"

definition example_char :: "string PyArrayObject" where
  "example_char = \<lparr>dim0 = 1, dim1 = 3,
      cell = (\<lambda>attr ob. if ob = 0 then ''zz'' else if ob = 1 then ''abd'' else ''abcde'')\<rparr>"

definition example_seed :: "nat \<Rightarrow> mt19937_64" where
  "example_seed s = (\<lambda>i. s)"

text \<open>
  The tree sizes used below are 1, 3 and 5, where \<^verbatim>\<open>ceil(log2((double)treeSize))\<close> is
  0, 2 and 3, the exact ceiling of the logarithm.
\<close>

definition example_ceil_log2 :: "nat \<Rightarrow> int" where
  "example_ceil_log2 n = int (ceillog2 n)"

definition example_forest :: "nat \<Rightarrow> nat \<Rightarrow> nat \<Rightarrow> IsolationForest" where
  "example_forest tSize fSize rSeed =
     IsolationForest_ctor example_ceil_log2 example_seed example_num example_char
       tSize fSize rSeed"

section \<open>Properties\<close>

subsection \<open>The conversion of a count\<close>

declare excess_bits.simps [simp del]

lemma excess_bits_small: "n < 2 ^ 53 \<Longrightarrow> excess_bits n = 0"
  by (simp add: excess_bits.simps[of n])

lemma round_to_double_small: "n < 2 ^ 53 \<Longrightarrow> round_to_double n = n"
  by (simp add: round_to_double_def excess_bits_small)

lemma excess_bits_power: "2 ^ 53 \<le> n \<Longrightarrow> 2 ^ excess_bits n * 2 ^ 52 \<le> n"
proof (induction n rule: excess_bits.induct)
  case (1 n)
  then have e: "excess_bits n = Suc (excess_bits (n div 2))"
    by (simp add: excess_bits.simps[of n])
  show ?case
  proof (cases "n div 2 < 2 ^ 53")
    case True
    then show ?thesis using "1.prems" by (simp add: e excess_bits_small)
  next
    case False
    then have "2 ^ excess_bits (n div 2) * 2 ^ 52 \<le> n div 2"
      using "1.IH" "1.prems" by simp
    then have "2 * (2 ^ excess_bits (n div 2) * 2 ^ 52) \<le> 2 * (n div 2)"
      by simp
    also have "\<dots> \<le> n" by simp
    finally show ?thesis by (simp add: e)
  qed
qed

lemma round_to_double_large:
  assumes "2 ^ 53 \<le> n"
  shows "2 ^ 52 \<le> round_to_double n"
proof -
  define k where "k = excess_bits n"
  define q where "q = n div 2 ^ k"
  have "2 ^ 52 * 2 ^ k \<le> n"
    using excess_bits_power[OF assms] by (simp add: k_def mult.commute)
  then have q: "2 ^ 52 \<le> q"
    unfolding q_def by (simp add: less_eq_div_iff_mult_less_eq)
  have "q \<le> q * 2 ^ k" by simp
  moreover have "q * 2 ^ k \<le> round_to_double n"
    by (simp add: round_to_double_def Let_def k_def[symmetric] q_def[symmetric])
  ultimately show ?thesis using q by linarith
qed

lemma round_to_double_ge:
  assumes "m \<le> n" and "m \<le> 2 ^ 52"
  shows "m \<le> round_to_double n"
proof (cases "n < 2 ^ 53")
  case True
  then show ?thesis using assms(1) by (simp add: round_to_double_small)
next
  case False
  then have "2 ^ 53 \<le> n" by simp
  from round_to_double_large[OF this] assms(2) show ?thesis by linarith
qed

lemma of_size_small: "n < 2 ^ 53 \<Longrightarrow> of_size n = Fin (real n)"
  by (simp add: of_size_def round_to_double_small)

lemma of_size_positive: "0 < n \<Longrightarrow> \<exists>y. of_size n = Fin y \<and> 0 < y"
  using round_to_double_ge[of 1 n] by (simp add: of_size_def)

lemmas example_defs = example_forest_def IsolationForest_ctor_def example_seed_def
  example_ceil_log2_def example_num_def example_char_def
  growForest_def grow_def std_sample_def split_sample_def PyArray_GETPTR2_def
  num_goes_left_def char_goes_left_def strlen_def of_size_small inf_of_sign_def
  ceillog2_code ceillog2_aux.simps upt_rec

lemma growForest_loop_numeral:
  "growForest_loop (numeral k) obs f = growForest_loop (Suc (pred_numeral k)) obs f"
  by (simp only: numeral_eq_Suc)

lemma grow_loop_numeral:
  "grow_loop (numeral k) obs sample f = grow_loop (Suc (pred_numeral k)) obs sample f"
  by (simp only: numeral_eq_Suc)

subsection \<open>The average path length\<close>

lemma averagePathLength_Fin:
  assumes "1 < n"
  shows "averagePathLength n = Fin (averagePathLength_formula (real (round_to_double n)))"
proof -
  have "2 \<le> round_to_double n" using assms by (intro round_to_double_ge) simp_all
  then have "1 < real (round_to_double n)" by linarith
  then show ?thesis
    by (simp add: averagePathLength_def averagePathLength_formula_def of_size_def dsub_def Let_def)
qed



lemma formula_pos_arith:
  fixes l g a b :: real
  shows "1 - a \<le> l \<Longrightarrow> a - b < g \<Longrightarrow> 0 < 2 * (l + g) - 2 * (1 - b)"
  by (simp add: algebra_simps)

lemma formula_pos:
  assumes "2 \<le> x"
  shows "0 < averagePathLength_formula x"
proof -
  have y: "0 < x - 1" using assms by simp
  have "ln (1 / (x - 1)) \<le> 1 / (x - 1) - 1"
    using y by (intro ln_le_minus_one) simp
  then have l: "1 - 1 / (x - 1) \<le> ln (x - 1)"
    using y by (simp add: ln_div)
  have "2 * 1 \<le> x * (x - 1)"
    using assms by (intro mult_mono) simp_all
  then have "1 / (x * (x - 1)) \<le> 1 / 2"
    using assms by (intro divide_left_mono) simp_all
  moreover have "1 / (x - 1) - 1 / x = 1 / (x * (x - 1))"
    using assms by (simp add: field_simps)
  moreover have "1 / 2 < EULER_GAMMA" by (simp add: EULER_GAMMA_def)
  ultimately have g: "1 / (x - 1) - 1 / x < EULER_GAMMA" by linarith
  have "2 * (x - 1) / x = 2 * (1 - 1 / x)" using assms by (simp add: field_simps)
  then have "averagePathLength_formula x
      = 2 * (ln (x - 1) + EULER_GAMMA) - 2 * (1 - 1 / x)"
    by (simp only: averagePathLength_formula_def)
  then show ?thesis using formula_pos_arith[OF l g] by (simp only:)
qed

lemma averagePathLength_pos:
  assumes "1 < n"
  shows "\<exists>x. averagePathLength n = Fin x \<and> 0 < x"
proof -
  have "2 \<le> round_to_double n" using assms by (intro round_to_double_ge) simp_all
  then have "2 \<le> real (round_to_double n)" by linarith
  then show ?thesis using averagePathLength_Fin[OF assms] formula_pos by simp
qed




subsection \<open>The shape of the trees that \<^verbatim>\<open>growTree\<close> builds\<close>

lemma growTree_leaf:
  "length sample \<le> 1 \<or> height \<ge> maxTreeHeight f \<Longrightarrow>
     growTree f sample height g = (ExNode (length sample), g)"
  by (simp add: growTree.simps[of f sample height g])










subsection \<open>Sampling in \<^verbatim>\<open>growForest\<close> and \<^verbatim>\<open>grow\<close>\<close>


lemma sample_loop_length: "length (fst (sample_loop xs n g)) \<le> n"
proof (induction xs arbitrary: n g)
  case Nil
  then show ?case by simp
next
  case (Cons x xs)
  show ?case
    using Cons.IH[of "n - 1" "\<lambda>i. g (Suc i)"] Cons.IH[of n "\<lambda>i. g (Suc i)"]
    by (cases n) (auto simp add: case_prod_beta)
qed


lemma std_sample_length: "length (fst (std_sample xs n g)) \<le> n"
  using sample_loop_length[of xs "min n (length xs)" g] by (simp add: std_sample_def)


lemma growForest_loop_fields:
  "n_num_attrs (growForest_loop k obs f) = n_num_attrs f"
  "n_char_attrs (growForest_loop k obs f) = n_char_attrs f"
  "uniformDist (growForest_loop k obs f) = uniformDist f"
  "treeSize (growForest_loop k obs f) = treeSize f"
  "forestSize (growForest_loop k obs f) = forestSize f"
  "maxTreeHeight (growForest_loop k obs f) = maxTreeHeight f"
  "nObs (growForest_loop k obs f) = nObs f"
  by (induction k arbitrary: f; simp split: prod.splits)+






text \<open>
  Claim C3: the second tree of \<^verbatim>\<open>grow(2)\<close> is grown from six indices, every index of the
  three-element sample twice, because \<^verbatim>\<open>sample\<close> is never cleared between iterations.
\<close>

theorem grow_second_sample_accumulates:
  "treeSize (example_forest 3 1 0) = 3
   \<and> std_sample [0, 1, 2] 3 (example_seed 0) = ([0, 1, 2], example_seed 0)
   \<and> trees (grow 2 (example_forest 3 1 0)) =
       [IsolationTree (fst (growTree (example_forest 3 1 0) [0, 1, 2] 0 (example_seed 0))),
        IsolationTree (fst (growTree (example_forest 3 1 0) [0, 1, 2, 0, 1, 2] 0 (example_seed 0)))]
   \<and> node_size (root (trees (grow 2 (example_forest 3 1 0)) ! 1)) = 6"
  by (simp add: example_defs growForest_loop_numeral grow_loop_numeral growTree.simps)

subsection \<open>The partition of a sample on a string attribute\<close>

lemma strcmp_le_0: "strcmp s p \<le> 0 \<longleftrightarrow> s \<le> p"
proof (induction s p rule: strcmp.induct)
  case (4 x xs y ys)
  show ?case
  proof (cases "x = y")
    case True
    with 4 show ?thesis by simp
  next
    case False
    then have "(of_char x :: nat) \<noteq> of_char y" by simp
    then have "int (of_char x) - int (of_char y) \<le> 0 \<longleftrightarrow> (of_char x :: nat) < of_char y"
      by linarith
    then have "int (of_char x) - int (of_char y) \<le> 0 \<longleftrightarrow> x < y"
      by (simp only: less_char_def)
    with False show ?thesis by simp
  qed
qed simp_all

lemma char_goes_left_iff:
  "char_goes_left p s \<longleftrightarrow> length s < length p \<or> (length s = length p \<and> s \<le> p)"
  by (auto simp: char_goes_left_def strlen_def strcmp_le_0)

text \<open>
  Claim C8.  At a split on a string attribute with pivot \<open>p\<close>, \<^verbatim>\<open>growTree\<close> puts an
  observation of the sample with string \<open>s\<close> in the left partition if and only if \<open>s\<close> is
  shorter than \<open>p\<close>, or as long as \<open>p\<close> and at most \<open>p\<close> in the lexicographic order of
  bytes; the others go right.  So a strictly shorter string always goes left and a
  strictly longer one always goes right, and the two children are grown from these
  two partitions.
\<close>

theorem char_partition_rule:
  assumes "split_sample f sample g = (attr, val, Some p, lobs, robs, g2)"
    and "\<not> (length sample \<le> 1 \<or> height \<ge> maxTreeHeight f)"
    and "str = (\<lambda>i. PyArray_GETPTR2 (char_data f) (attr - n_num_attrs f) i)"
  shows "lobs = filter (\<lambda>i. length (str i) < length p
                         \<or> (length (str i) = length p \<and> str i \<le> p)) sample
     \<and> robs = filter (\<lambda>i. \<not> (length (str i) < length p
                         \<or> (length (str i) = length p \<and> str i \<le> p))) sample
     \<and> (\<forall>i \<in> set sample. length (str i) < length p \<longrightarrow> i \<in> set lobs \<and> i \<notin> set robs)
     \<and> (\<forall>i \<in> set sample. length (str i) > length p \<longrightarrow> i \<in> set robs \<and> i \<notin> set lobs)
     \<and> fst (growTree f sample height g) =
         InNode attr val (Some p) (length sample)
           (fst (growTree f lobs (height + 1) g2))
           (fst (growTree f robs (height + 1) (snd (growTree f lobs (height + 1) g2))))"
proof -
  have l: "lobs = filter (\<lambda>i. char_goes_left p (str i)) sample"
    and r: "robs = filter (\<lambda>i. \<not> char_goes_left p (str i)) sample"
    using assms(1,3)
    by (auto simp: split_sample_def Let_def case_prod_beta split: if_splits)
  have t: "fst (growTree f sample height g) =
         InNode attr val (Some p) (length sample)
           (fst (growTree f lobs (height + 1) g2))
           (fst (growTree f robs (height + 1) (snd (growTree f lobs (height + 1) g2))))"
    using assms(1,2) by (simp add: growTree.simps[of f sample height g] case_prod_beta)
  show ?thesis
    unfolding l r using t unfolding l r by (auto simp: char_goes_left_iff)
qed

theorem char_partition_rule_witness:
  "split_sample (example_forest 3 1 1) [0, 1, 2] (example_seed 1)
      = (1, NaN, Some ''abd'', [0, 1], [2], example_seed 1)
   \<and> \<not> (length [0::nat, 1, 2] \<le> 1 \<or> (0::int) \<ge> maxTreeHeight (example_forest 3 1 1))
   \<and> [0, 1] = filter (\<lambda>i. length (cell example_char 0 i) < length ''abd''
                 \<or> (length (cell example_char 0 i) = length ''abd'' \<and> cell example_char 0 i \<le> ''abd'')) [0, 1, 2]
   \<and> (2::nat) \<in> set [0, 1, 2] \<and> length (cell example_char 0 2) > length ''abd'' \<and> 2 \<in> set [2::nat]
   \<and> (0::nat) \<in> set [0, 1, 2] \<and> length (cell example_char 0 0) < length ''abd'' \<and> 0 \<in> set [0::nat, 1]
   \<and> fst (growTree (example_forest 3 1 1) [0, 1, 2] 0 (example_seed 1)) =
         InNode 1 NaN (Some ''abd'') 3
           (fst (growTree (example_forest 3 1 1) [0, 1] 1 (example_seed 1)))
           (fst (growTree (example_forest 3 1 1) [2] 1
                  (snd (growTree (example_forest 3 1 1) [0, 1] 1 (example_seed 1)))))"
proof -
  have s: "split_sample (example_forest 3 1 1) [0, 1, 2] (example_seed 1)
      = (1, NaN, Some ''abd'', [0, 1], [2], example_seed 1)"
    by (simp add: example_defs)
  have h: "\<not> (length [0::nat, 1, 2] \<le> 1 \<or> (0::int) \<ge> maxTreeHeight (example_forest 3 1 1))"
    by (simp add: example_defs)
  show ?thesis
    using s h char_partition_rule[OF s h refl]
    by (simp add: example_defs)
qed

subsection \<open>Missing values in \<^verbatim>\<open>pathLength\<close>\<close>

text \<open>
  Claim C1: at the root, whose pivot is 1, \<^verbatim>\<open>growTree\<close> pushes observation 1, which has
  no numeric reading, to the left partition, and \<^verbatim>\<open>pathLength\<close> sends the same
  observation to the right child, because \<^verbatim>\<open>val <= node->splitValue\<close> is false for a
  not-a-number.
\<close>

theorem pathLength_sends_missing_right:
  "root (hd (trees (growForest (example_forest 3 1 0))))
      = InNode 0 (Fin 1) None 3 (InNode 0 (Fin 1) None 2 (ExNode 2) (ExNode 0)) (ExNode 1)
   \<and> split_sample (example_forest 3 1 0) [0, 1, 2] (example_seed 0)
      = (0, Fin 1, None, [0, 1], [2], example_seed 0)
   \<and> PyArray_GETPTR2 (num_data (example_forest 3 1 0)) 0 1 = NaN
   \<and> pathLength (example_forest 3 1 0) 1
        (InNode 0 (Fin 1) None 3 (InNode 0 (Fin 1) None 2 (ExNode 2) (ExNode 0)) (ExNode 1)) 0
      = pathLength (example_forest 3 1 0) 1 (ExNode 1) 1
   \<and> pathLength (example_forest 3 1 0) 1 (ExNode 1) 1 = Some (Fin 1)"
  by (simp add: example_defs growTree.simps)

subsection \<open>The anomaly score\<close>

lemma averagePathLength_0: "averagePathLength 0 = NaN"
  by (simp add: averagePathLength_def of_size_small dsub_def)

lemma averagePathLength_1: "averagePathLength (Suc 0) = MInf"
  by (simp add: averagePathLength_def of_size_small dsub_def inf_of_sign_def)

lemma averagePathLength_finite_positive_iff:
  "(\<exists>x. averagePathLength n = Fin x \<and> 0 < x) \<longleftrightarrow> 2 \<le> n"
proof (cases "2 \<le> n")
  case True
  then show ?thesis using averagePathLength_pos[of n] by simp
next
  case False
  then have "n = 0 \<or> n = 1" by linarith
  then show ?thesis using False
    by (auto simp: averagePathLength_0 averagePathLength_1)
qed

lemma sum_pathLength_leaves:
  "\<forall>t \<in> set ts. \<exists>n. root t = ExNode n \<Longrightarrow> \<exists>x. sum_pathLength f ob ts (Fin a) = Some (Fin x)"
proof (induction ts arbitrary: a)
  case Nil
  then show ?case by simp
next
  case (Cons t ts)
  then obtain n where n: "root t = ExNode n" by auto
  obtain y where "pathLength f ob (root t) 0 = Some (Fin y)"
    unfolding n using averagePathLength_pos[of n] by (cases "n \<le> 1") auto
  then show ?case using Cons by simp
qed

lemma growForest_loop_leaves:
  assumes "treeSize f \<le> 1" and "\<forall>t \<in> set (trees f). \<exists>n. root t = ExNode n"
  shows "\<forall>t \<in> set (trees (growForest_loop k obs f)). \<exists>n. root t = ExNode n"
  using assms
proof (induction k arbitrary: f)
  case 0
  then show ?case by simp
next
  case (Suc k)
  obtain smp g1 where s: "std_sample obs (treeSize f) (randomGen f) = (smp, g1)" by fastforce
  have "length smp \<le> 1"
    using std_sample_length[of obs "treeSize f" "randomGen f"] s Suc.prems(1) by simp
  then have t: "growTree f smp 0 g1 = (ExNode (length smp), g1)"
    by (simp add: growTree_leaf)
  let ?f = "f\<lparr>randomGen := g1, trees := trees f @ [IsolationTree (ExNode (length smp))]\<rparr>"
  have "\<forall>t \<in> set (trees (growForest_loop k obs ?f)). \<exists>n. root t = ExNode n"
    using Suc.prems by (intro Suc.IH) auto
  then show ?case using s t by simp
qed

lemma anomalyScore_no_trees:
  "forestSize f = 0 \<Longrightarrow> trees f = [] \<Longrightarrow> anomalyScore f ob = Some NaN"
  by (simp add: anomalyScore_def of_size_small)

text \<open>
  Claim C4, as the claim states it, fails: a forest of size zero is scored without any
  error, and the score is a not-a-number.
\<close>

theorem anomalyScore_empty_forest_counterexample:
  "forestSize (example_forest 3 0 0) = 0
   \<and> anomalyScore (growForest (example_forest 3 0 0)) 2 = Some NaN"
  by (simp add: example_defs anomalyScore_def)

text \<open>
  Claim C4, amended.  For every forest constructed with a forest size of zero and
  populated by \<^verbatim>\<open>growForest\<close>, \<^verbatim>\<open>anomalyScore\<close> raises no error: the averaging step
  divides zero by zero and the score is a not-a-number.
\<close>

theorem anomalyScore_empty_forest:
  "anomalyScore (growForest (IsolationForest_ctor ceil_log2 seed_gen numd chard tSize 0 rSeed)) ob
     = Some NaN"
  by (simp add: growForest_def IsolationForest_ctor_def anomalyScore_no_trees)

text \<open>
  Claim C10, as the claim states it, fails: with a tree size of one the score is the
  finite number 1.
\<close>

theorem anomalyScore_treeSize_1_counterexample:
  "treeSize (growForest (example_forest 1 1 0)) = 1
   \<and> anomalyScore (growForest (example_forest 1 1 0)) 2 = Some (Fin 1)"
  by (simp add: example_defs growTree.simps anomalyScore_def averagePathLength_def dsub_def)

text \<open>
  Claim C10, amended.  For a forest constructed with a tree size of one and a forest size
  of at least one, and populated by \<^verbatim>\<open>growForest\<close>, the divisor
  \<^verbatim>\<open>averagePathLength(treeSize)\<close> computes \<^verbatim>\<open>log(0)\<close> and is minus infinity; the finite
  average divided by it is zero, and the score is exactly 1.  The average path length is
  a finite positive number exactly for the counts from 2 on.
\<close>

theorem anomalyScore_treeSize_1:
  assumes "f = growForest (IsolationForest_ctor ceil_log2 seed_gen numd chard 1 fSize rSeed)"
    and "0 < fSize"
  shows "averagePathLength (treeSize f) = MInf
     \<and> anomalyScore f ob = Some (Fin 1)
     \<and> ((\<exists>x. averagePathLength n = Fin x \<and> 0 < x) \<longleftrightarrow> 2 \<le> n)"
proof -
  have ts: "treeSize f = 1" and fs: "forestSize f = fSize"
    using assms(1) by (simp_all add: growForest_def growForest_loop_fields IsolationForest_ctor_def)
  have "\<forall>t \<in> set (trees f). \<exists>n. root t = ExNode n"
    unfolding assms(1) growForest_def
    by (rule growForest_loop_leaves) (simp_all add: IsolationForest_ctor_def)
  from sum_pathLength_leaves[OF this, of f ob 0]
  obtain x where x: "sum_pathLength f ob (trees f) (Fin 0) = Some (Fin x)" by blast
  obtain y where y: "of_size fSize = Fin y" "0 < y"
    using of_size_positive[OF assms(2)] by blast
  have "anomalyScore f ob = Some (Fin 1)"
    using y by (simp add: anomalyScore_def x ts fs averagePathLength_1)
  then show ?thesis
    by (simp add: ts averagePathLength_1 averagePathLength_finite_positive_iff)
qed

theorem anomalyScore_treeSize_1_witness:
  "(0::nat) < 2
   \<and> averagePathLength (treeSize (growForest (example_forest 1 2 0))) = MInf
   \<and> anomalyScore (growForest (example_forest 1 2 0)) 0 = Some (Fin 1)
   \<and> ((\<exists>x. averagePathLength 2 = Fin x \<and> 0 < x) \<longleftrightarrow> (2::nat) \<le> 2)"
  using anomalyScore_treeSize_1[of "growForest (example_forest 1 2 0)" example_ceil_log2
      example_seed example_num example_char 2 0 0 2]
  by (simp add: example_forest_def)

text \<open>
  Claim C2: after \<^verbatim>\<open>growForest\<close> and one more tree from \<^verbatim>\<open>grow(1)\<close> the forest owns two
  trees and \<open>forestSize\<close> is still 1; the sum 2 of the two path lengths is divided by
  \<open>forestSize\<close>, not by the number of trees.
\<close>

theorem anomalyScore_divides_by_forestSize:
  "forestSize (grow 1 (growForest (example_forest 3 1 0))) = 1
   \<and> length (trees (grow 1 (growForest (example_forest 3 1 0)))) = 2
   \<and> sum_pathLength (grow 1 (growForest (example_forest 3 1 0))) 2
        (trees (grow 1 (growForest (example_forest 3 1 0)))) (Fin 0) = Some (Fin 2)
   \<and> anomalyScore (grow 1 (growForest (example_forest 3 1 0))) 2
        = Some (pow2 (ddiv (dneg (ddiv (Fin 2) (of_size 1))) (averagePathLength 3)))
   \<and> anomalyScore (grow 1 (growForest (example_forest 3 1 0))) 2
        \<noteq> Some (pow2 (ddiv (dneg (ddiv (Fin 2) (of_size 2))) (averagePathLength 3)))"
proof -
  let ?F = "grow 1 (growForest (example_forest 3 1 0))"
  have F: "?F = (example_forest 3 1 0)\<lparr>trees :=
      [IsolationTree (InNode 0 (Fin 1) None 3 (InNode 0 (Fin 1) None 2 (ExNode 2) (ExNode 0)) (ExNode 1)),
       IsolationTree (InNode 0 (Fin 1) None 3 (InNode 0 (Fin 1) None 2 (ExNode 2) (ExNode 0)) (ExNode 1))]\<rparr>"
    by (simp add: example_defs growTree.simps)
  have 1: "forestSize ?F = 1" "length (trees ?F) = 2" "treeSize ?F = 3"
    unfolding F by (simp_all add: example_forest_def IsolationForest_ctor_def)
  have 2: "sum_pathLength ?F 2 (trees ?F) (Fin 0) = Some (Fin 2)"
    unfolding F by (simp add: example_defs)
  have c: "averagePathLength 3 = Fin (averagePathLength_formula 3)"
    using averagePathLength_Fin[of 3] by (simp add: round_to_double_small)
  have p: "0 < averagePathLength_formula 3"
    by (rule formula_pos) simp
  have 3: "anomalyScore ?F 2
        = Some (pow2 (ddiv (dneg (ddiv (Fin 2) (of_size 1))) (averagePathLength 3)))"
    using 1 2 by (simp add: anomalyScore_def)
  have "- 2 / averagePathLength_formula 3 \<noteq> - 1 / averagePathLength_formula 3"
    using p by simp
  then have "pow2 (ddiv (dneg (ddiv (Fin 2) (of_size 1))) (averagePathLength 3))
      \<noteq> pow2 (ddiv (dneg (ddiv (Fin 2) (of_size 2))) (averagePathLength 3))"
    using p by (simp add: c of_size_small powr_inj)
  with 1 2 3 show ?thesis by simp
qed

end
